theory Spec2Isabelle
  imports Complex_Main
begin

section \<open>Python strings\<close>

text \<open>
  A Python \<open>str\<close> is a sequence of Unicode code points, so it is modelled as a list of
  natural numbers; slicing and \<open>len\<close> then count what Python counts. \<open>str\<close> turns an
  ASCII literal into such a sequence.
\<close>

type_synonym pystr = "nat list"

definition str :: "string \<Rightarrow> pystr" where
  "str s = map of_char s"

text \<open>
  The encoder classes that the two registries of the repository refer to
  (\<open>barcode.Code128\<close>, \<open>barcode.get_barcode_class('upc')\<close>, ...).
\<close>

datatype barcode_class = Code128 | Code39 | EAN13 | EAN8 | UPCA | ITF | CODABAR | UPC | ISBN13

text \<open>
  The writers of python-barcode that the generators pass to an encoder: \<open>ImageWriter()\<close>
  for raster images and \<open>SVGWriter()\<close> for vector images.
\<close>

datatype writer = ImageWriter | SVGWriter

text \<open>
  Everything the program takes from outside the repository is a field of the environment:
  \<^item> \<open>HAS_PDF_SUPPORT\<close>: whether the import of reportlab and PIL succeeded;
  \<^item> \<open>uni_isalnum\<close>, \<open>uni_isspace\<close>, \<open>uni_upper\<close>: the Unicode tables behind
    \<open>str.isalnum\<close>, \<open>str.isspace\<close> and \<open>str.upper\<close>, consulted for code points from 128 on
    (the ASCII range is written out below);
  \<^item> \<open>now\<close>: the text of \<open>datetime.now().strftime("%Y%m%d_%H%M%S")\<close>;
  \<^item> \<open>accepts\<close>: whether the constructor of an encoder class takes a text without raising;
  \<^item> \<open>saved_as\<close>: the name of the file that \<open>code.save(name, options)\<close> creates and
    returns for the name it is given, for a code constructed with the given writer;
  \<^item> \<open>can_write\<close>, \<open>can_draw\<close>, \<open>can_remove\<close>: whether creating a file, reading an image
    into the canvas (\<open>drawImage\<close>) and \<open>os.remove\<close> succeed on a path;
  \<^item> \<open>A4\<close>: reportlab's page size (width, height), in points;
  \<^item> \<open>downloads\<close>: the value of \<open>os.path.expanduser('~/Downloads')\<close>.
\<close>

record env =
  HAS_PDF_SUPPORT :: bool
  uni_isalnum :: "nat \<Rightarrow> bool"
  uni_isspace :: "nat \<Rightarrow> bool"
  uni_upper :: "nat \<Rightarrow> pystr"
  now :: pystr
  accepts :: "barcode_class \<Rightarrow> pystr \<Rightarrow> bool"
  saved_as :: "writer \<Rightarrow> pystr \<Rightarrow> pystr"
  can_write :: "pystr \<Rightarrow> bool"
  can_draw :: "pystr \<Rightarrow> bool"
  can_remove :: "pystr \<Rightarrow> bool"
  A4 :: "real \<times> real"
  downloads :: pystr

text \<open>\<open>c.isalnum()\<close>: digits and letters in the ASCII range, the Unicode table beyond it.\<close>

definition isalnum :: "env \<Rightarrow> nat \<Rightarrow> bool" where
  "isalnum E c =
     (if c < 128 then (48 \<le> c \<and> c \<le> 57) \<or> (65 \<le> c \<and> c \<le> 90) \<or> (97 \<le> c \<and> c \<le> 122)
      else uni_isalnum E c)"

text \<open>
  \<open>c.isspace()\<close>: in the ASCII range the characters 9 to 13, 28 to 31 and the blank.
\<close>

definition isspace :: "env \<Rightarrow> nat \<Rightarrow> bool" where
  "isspace E c =
     (if c < 128 then (9 \<le> c \<and> c \<le> 13) \<or> (28 \<le> c \<and> c \<le> 32) else uni_isspace E c)"

text \<open>\<open>s.rstrip()\<close> and \<open>s.strip()\<close> without argument remove whitespace at the end(s).\<close>

definition rstrip :: "env \<Rightarrow> pystr \<Rightarrow> pystr" where
  "rstrip E s = rev (dropWhile (isspace E) (rev s))"

definition strip :: "env \<Rightarrow> pystr \<Rightarrow> pystr" where
  "strip E s = rstrip E (dropWhile (isspace E) s)"

text \<open>\<open>s.upper()\<close>: a to z become A to Z; other code points go through the Unicode table.\<close>

definition upper :: "env \<Rightarrow> pystr \<Rightarrow> pystr" where
  "upper E s =
     concat (map (\<lambda>c. if c < 128 then (if 97 \<le> c \<and> c \<le> 122 then [c - 32] else [c])
                       else uni_upper E c) s)"

text \<open>\<open>str(n)\<close> for a natural number: its decimal digits.\<close>

fun str_nat :: "nat \<Rightarrow> pystr" where
  "str_nat n = (if n < 10 then [48 + n] else str_nat (n div 10) @ [48 + n mod 10])"

declare str_nat.simps [simp del]

text \<open>
  The format specification \<open>04d\<close> of an f-string, for a number that is not negative:
  the decimal digits, filled with zeros on the left up to four characters.
\<close>

definition format_04d :: "nat \<Rightarrow> pystr" where
  "format_04d n = replicate (4 - length (str_nat n)) 48 @ str_nat n"

section \<open>File names\<close>

text \<open>
  The test of the generator expression in
  \<^verbatim>\<open>"".join(c for c in text if c.isalnum() or c in (' ', '-', '_')).rstrip()\<close>
\<close>

definition keep_char :: "env \<Rightarrow> nat \<Rightarrow> bool" where
  "keep_char E c = (isalnum E c \<or> c = 32 \<or> c = 45 \<or> c = 95)"

text \<open>
  The whole expression, which occurs with the same text in \<open>generate_barcode\<close> (both
  modules) and in \<open>on_generate_batch\<close>.
\<close>

definition sanitize :: "env \<Rightarrow> pystr \<Rightarrow> pystr" where
  "sanitize E s = rstrip E (filter (keep_char E) s)"

text \<open>
  \<open>on_generate_batch\<close>, for the item \<open>text\<close> that \<open>enumerate\<close> numbers \<open>i\<close> (from 0):
  \<^verbatim>\<open>filename = f"{prefix}{i+1:04d}_{text[:20]}"\<close> and then the expression above.
\<close>

definition batch_filename :: "env \<Rightarrow> pystr \<Rightarrow> nat \<Rightarrow> pystr \<Rightarrow> pystr" where
  "batch_filename E prefix i text =
     sanitize E (prefix @ format_04d (i + 1) @ str ''_'' @ take 20 text)"

text \<open>
  An environment for concrete runs. The tables are those of ASCII texts and the file
  system refuses nothing. The library is python-barcode as the runs below meet it:
  \<open>save\<close> appends the extension of the writer to the name it is given (\<open>.png\<close> for
  \<open>ImageWriter\<close>, \<open>.svg\<close> for \<open>SVGWriter\<close>) and returns that name; \<open>Code128\<close> takes every
  ASCII text but the empty one; \<open>Code39\<close> takes the texts over its character set
  (digits, letters, blank and \<open>$ % + - . /\<close>), the empty text among them. The other
  encoder classes are not used in the runs below and take no text here.
\<close>

definition plain_accepts :: "barcode_class \<Rightarrow> pystr \<Rightarrow> bool" where
  "plain_accepts barcode_class text =
     (case barcode_class of
        Code128 \<Rightarrow> text \<noteq> [] \<and> list_all (\<lambda>c. c < 128) text
      | Code39 \<Rightarrow>
          list_all (\<lambda>c. (48 \<le> c \<and> c \<le> 57) \<or> (65 \<le> c \<and> c \<le> 90) \<or> (97 \<le> c \<and> c \<le> 122) \<or>
                        c = 32 \<or> c = 36 \<or> c = 37 \<or> c = 43 \<or> c = 45 \<or> c = 46 \<or> c = 47) text
      | _ \<Rightarrow> False)"

definition plain_saved_as :: "writer \<Rightarrow> pystr \<Rightarrow> pystr" where
  "plain_saved_as w name =
     name @ (case w of ImageWriter \<Rightarrow> str ''.png'' | SVGWriter \<Rightarrow> str ''.svg'')"

definition plain_env :: env where
  "plain_env = \<lparr> HAS_PDF_SUPPORT = True,
     uni_isalnum = (\<lambda>c. False), uni_isspace = (\<lambda>c. False), uni_upper = (\<lambda>c. [c]),
     now = str ''20250101_120000'',
     accepts = plain_accepts, saved_as = plain_saved_as,
     can_write = (\<lambda>p. True), can_draw = (\<lambda>p. True), can_remove = (\<lambda>p. True),
     A4 = (595.2755905511812, 841.8897637795277), downloads = str ''/home/user/Downloads'' \<rparr>"

section \<open>Registries, errors and the file system\<close>

text \<open>\<open>self.barcode_types\<close> of \<open>BarcodeGeneratorFrame\<close> (try.py).\<close>

definition barcode_types :: "pystr \<rightharpoonup> barcode_class" where
  "barcode_types = map_of
     [(str ''Code128'', Code128), (str ''Code39'', Code39), (str ''EAN13'', EAN13),
      (str ''EAN8'', EAN8), (str ''UPC-A'', UPCA), (str ''ITF'', ITF),
      (str ''CODABAR'', CODABAR)]"

text \<open>\<open>self.barcode_types\<close> of \<open>BarcodeGenerator\<close> (logic/barcode_generator.py).\<close>

definition logic_barcode_types :: "pystr \<rightharpoonup> barcode_class" where
  "logic_barcode_types = map_of
     [(str ''EAN13'', EAN13), (str ''EAN8'', EAN8), (str ''Code128'', Code128),
      (str ''Code39'', Code39), (str ''UPC'', UPC), (str ''ISBN13'', ISBN13)]"

text \<open>
  The exceptions that can leave the generators: the \<open>KeyError\<close> of a registry lookup, the
  \<open>Exception("PDF support not available. ...")\<close> that the code raises itself, the
  \<open>NameError\<close> of a name that a failed import left undefined, and the failures of the
  external calls (constructing an encoder, creating a file, drawing an image, removing a
  file).
\<close>

datatype exn =
    KeyError pystr
  | PDF_support_not_available
  | NameError pystr
  | BarcodeError barcode_class pystr
  | WriteError pystr
  | DrawError pystr
  | RemoveError pystr

text \<open>The file system, as far as the program touches it: the set of existing paths.\<close>

type_synonym fs = "pystr set"

text \<open>\<open>os.path.join\<close> with two arguments (POSIX).\<close>

definition os_path_join :: "pystr \<Rightarrow> pystr \<Rightarrow> pystr" where
  "os_path_join a b =
     (if b \<noteq> [] \<and> hd b = 47 then b
      else if a = [] \<or> last a = 47 then a @ b
      else a @ str ''/'' @ b)"

text \<open>
  \<open>code.save(name, options=options)\<close> for a code with the given writer: creates a file
  and returns its name.
\<close>

definition code_save :: "env \<Rightarrow> writer \<Rightarrow> pystr \<Rightarrow> fs \<Rightarrow> exn + pystr \<times> fs" where
  "code_save E w name files =
     (if can_write E (saved_as E w name)
      then Inr (saved_as E w name, insert (saved_as E w name) files)
      else Inl (WriteError (saved_as E w name)))"

text \<open>\<open>c.save()\<close> of a canvas created for \<open>path\<close>.\<close>

definition canvas_save :: "env \<Rightarrow> pystr \<Rightarrow> fs \<Rightarrow> exn + fs" where
  "canvas_save E path files =
     (if can_write E path then Inr (insert path files) else Inl (WriteError path))"

definition os_remove :: "env \<Rightarrow> pystr \<Rightarrow> fs \<Rightarrow> exn + fs" where
  "os_remove E path files =
     (if path \<in> files \<and> can_remove E path then Inr (files - {path})
      else Inl (RemoveError path))"

section \<open>The single-item generator of try.py\<close>

text \<open>
  The \<open>options\<close> dictionary that the generators build from the settings is handed to the
  writer only; it decides neither a branch nor a file name and is left out.
  Every function takes the file system and returns it with its result; a raised
  exception is the \<open>Inl\<close> of the result.
\<close>

text \<open>
  \<open>BarcodeGeneratorFrame.generate_pdf_barcode\<close>. The \<open>except Exception as e: raise e\<close>
  around the body passes every exception on.
\<close>

definition generate_pdf_barcode ::
  "env \<Rightarrow> pystr \<Rightarrow> pystr \<Rightarrow> pystr \<Rightarrow> pystr \<Rightarrow> fs \<Rightarrow> (exn + bool) \<times> fs" where
  "generate_pdf_barcode E text barcode_type output_dir filename files =
     (if \<not> HAS_PDF_SUPPORT E then (Inl PDF_support_not_available, files)
      else case barcode_types barcode_type of
        None \<Rightarrow> (Inl (KeyError barcode_type), files)
      | Some barcode_class \<Rightarrow>
          if \<not> accepts E barcode_class text then (Inl (BarcodeError barcode_class text), files)
          else (case code_save E ImageWriter (str ''temp_barcode'') files of
            Inl e \<Rightarrow> (Inl e, files)
          | Inr (temp_path, files1) \<Rightarrow>
              (let pdf_path = os_path_join output_dir (filename @ str ''.pdf'') in
               if \<not> can_draw E temp_path then (Inl (DrawError temp_path), files1)
               else (case canvas_save E pdf_path files1 of
                 Inl e \<Rightarrow> (Inl e, files1)
               | Inr files2 \<Rightarrow>
                   if temp_path \<in> files2
                   then (case os_remove E temp_path files2 of
                           Inl e \<Rightarrow> (Inl e, files2)
                         | Inr files3 \<Rightarrow> (Inr True, files3))
                   else (Inr True, files2)))))"

text \<open>
  The two lines \<open>code = barcode_class(text, writer=...)\<close> and
  \<open>code.save(output_path, options=options)\<close> of the SVG and PNG branches, followed by
  \<open>return True\<close>.
\<close>

definition encode_to ::
  "env \<Rightarrow> barcode_class \<Rightarrow> writer \<Rightarrow> pystr \<Rightarrow> pystr \<Rightarrow> fs \<Rightarrow> (exn + bool) \<times> fs" where
  "encode_to E barcode_class w text output_path files =
     (if \<not> accepts E barcode_class text then (Inl (BarcodeError barcode_class text), files)
      else case code_save E w output_path files of
        Inl e \<Rightarrow> (Inl e, files)
      | Inr (p, files1) \<Rightarrow> (Inr True, files1))"

text \<open>\<open>BarcodeGeneratorFrame.generate_barcode\<close>; \<open>filename=None\<close> is \<open>None\<close>.\<close>

definition generate_barcode ::
  "env \<Rightarrow> pystr \<Rightarrow> pystr \<Rightarrow> pystr \<Rightarrow> pystr \<Rightarrow> pystr option \<Rightarrow> fs \<Rightarrow> (exn + bool) \<times> fs" where
  "generate_barcode E text barcode_type output_format output_dir filename files =
     (case barcode_types barcode_type of
        None \<Rightarrow> (Inl (KeyError barcode_type), files)
      | Some barcode_class \<Rightarrow>
          let filename = (case filename of
                            None \<Rightarrow> str ''barcode_'' @ sanitize E text @ str ''_'' @ now E
                          | Some f \<Rightarrow> f)
          in if output_format = str ''SVG''
             then encode_to E barcode_class SVGWriter text
                    (os_path_join output_dir (filename @ str ''.svg'')) files
             else if output_format = str ''PDF'' \<and> HAS_PDF_SUPPORT E
             then generate_pdf_barcode E text barcode_type output_dir filename files
             else encode_to E barcode_class ImageWriter text
                    (os_path_join output_dir (filename @ str ''.png'')) files)"

text \<open>
  The message boxes of the handlers: what the text says, the caption and the icon.
  \<open>Successfully_generated n shown more\<close> is the warning of a batch with failures: the
  first ten failed items and, beyond ten, how many more.
\<close>

datatype failed_item = Item pystr | Item_error pystr exn

datatype message =
    Please_enter_text
  | Error_generating_barcode exn
  | Barcode_saved_to pystr
  | No_data_found
  | Successfully_generated nat "failed_item list" "nat option"
  | Successfully_generated_all nat

datatype icon = ICON_ERROR | ICON_INFORMATION | ICON_WARNING

datatype message_box = MessageBox message string icon


section \<open>The generator of logic/barcode\_generator.py\<close>

text \<open>
  \<open>BarcodeGenerator.generate_pdf_barcode\<close>, which returns the path of the document. It
  has no check of \<open>HAS_PDF_SUPPORT\<close>: when the import of reportlab failed, the name
  \<open>canvas\<close> is undefined and \<open>canvas.Canvas(...)\<close> raises a \<open>NameError\<close>, after the
  temporary image was saved.
\<close>

definition logic_generate_pdf_barcode ::
  "env \<Rightarrow> barcode_class \<Rightarrow> pystr \<Rightarrow> pystr \<Rightarrow> pystr \<Rightarrow> fs \<Rightarrow> (exn + pystr) \<times> fs" where
  "logic_generate_pdf_barcode E barcode_class text output_dir filename files =
     (if \<not> accepts E barcode_class text then (Inl (BarcodeError barcode_class text), files)
      else (case code_save E ImageWriter (str ''temp_barcode'') files of
        Inl e \<Rightarrow> (Inl e, files)
      | Inr (temp_path, files1) \<Rightarrow>
          (let pdf_path = os_path_join output_dir (filename @ str ''.pdf'') in
           if \<not> HAS_PDF_SUPPORT E then (Inl (NameError (str ''canvas'')), files1)
           else if \<not> can_draw E temp_path then (Inl (DrawError temp_path), files1)
           else (case canvas_save E pdf_path files1 of
             Inl e \<Rightarrow> (Inl e, files1)
           | Inr files2 \<Rightarrow>
               if temp_path \<in> files2
               then (case os_remove E temp_path files2 of
                       Inl e \<Rightarrow> (Inl e, files2)
                     | Inr files3 \<Rightarrow> (Inr pdf_path, files3))
               else (Inr pdf_path, files2)))))"

text \<open>The SVG and PNG branches: construct, join, save, \<open>return output_path\<close>.\<close>

definition logic_encode_to ::
  "env \<Rightarrow> barcode_class \<Rightarrow> writer \<Rightarrow> pystr \<Rightarrow> pystr \<Rightarrow> fs \<Rightarrow> (exn + pystr) \<times> fs" where
  "logic_encode_to E barcode_class w text output_path files =
     (if \<not> accepts E barcode_class text then (Inl (BarcodeError barcode_class text), files)
      else case code_save E w output_path files of
        Inl e \<Rightarrow> (Inl e, files)
      | Inr (p, files1) \<Rightarrow> (Inr output_path, files1))"

text \<open>\<open>BarcodeGenerator.generate_barcode\<close>.\<close>

definition logic_generate_barcode ::
  "env \<Rightarrow> pystr \<Rightarrow> pystr \<Rightarrow> pystr \<Rightarrow> pystr \<Rightarrow> pystr option \<Rightarrow> fs \<Rightarrow> (exn + pystr) \<times> fs" where
  "logic_generate_barcode E text barcode_type output_format output_dir filename files =
     (case logic_barcode_types barcode_type of
        None \<Rightarrow> (Inl (KeyError barcode_type), files)
      | Some barcode_class \<Rightarrow>
          let filename = (case filename of
                            None \<Rightarrow> str ''barcode_'' @ sanitize E text @ str ''_'' @ now E
                          | Some f \<Rightarrow> f)
          in if upper E output_format = str ''SVG''
             then logic_encode_to E barcode_class SVGWriter text
                    (os_path_join output_dir (filename @ str ''.svg'')) files
             else if upper E output_format = str ''PDF''
             then (if \<not> HAS_PDF_SUPPORT E then (Inl PDF_support_not_available, files)
                   else logic_generate_pdf_barcode E barcode_class text output_dir filename files)
             else logic_encode_to E barcode_class ImageWriter text
                    (os_path_join output_dir (filename @ str ''.png'')) files)"

section \<open>Batch generation\<close>

text \<open>
  The loop of \<open>on_generate_batch\<close> over \<open>enumerate(data)\<close> that writes one file per item.
  \<open>i\<close> is the number of the first item of the list; the counter \<open>successful\<close>, the list
  \<open>failed_items\<close> and the file system are carried through. The \<open>try\<close> of the body
  records an exception of the generator against the item.
\<close>

fun generate_individual ::
  "env \<Rightarrow> pystr \<Rightarrow> pystr \<Rightarrow> pystr \<Rightarrow> pystr \<Rightarrow> nat \<Rightarrow> pystr list \<Rightarrow>
   nat \<Rightarrow> failed_item list \<Rightarrow> fs \<Rightarrow> nat \<times> failed_item list \<times> fs" where
  "generate_individual E barcode_type output_format output_dir prefix i [] successful failed_items files =
     (successful, failed_items, files)"
| "generate_individual E barcode_type output_format output_dir prefix i (text # rest) successful failed_items files =
     (let filename = batch_filename E prefix i text;
          format_to_use = (if output_format = str ''PDF (Individual)'' then str ''PDF''
                           else output_format)
      in case generate_barcode E text barcode_type format_to_use output_dir (Some filename) files of
        (Inr success, files1) \<Rightarrow>
          if success
          then generate_individual E barcode_type output_format output_dir prefix (i + 1) rest
                 (successful + 1) failed_items files1
          else generate_individual E barcode_type output_format output_dir prefix (i + 1) rest
                 successful (failed_items @ [Item text]) files1
      | (Inl e, files1) \<Rightarrow>
          generate_individual E barcode_type output_format output_dir prefix (i + 1) rest
            successful (failed_items @ [Item_error text e]) files1)"

subsection \<open>The combined document\<close>

text \<open>\<open>int(x)\<close> of a float: rounding towards zero.\<close>

definition py_int :: "real \<Rightarrow> int" where
  "py_int x = (if 0 \<le> x then \<lfloor>x\<rfloor> else \<lceil>x\<rceil>)"

text \<open>
  The layout of \<open>generate_combined_pdf\<close>, with \<open>margin = 72\<close>, \<open>barcode_height = 80\<close>,
  \<open>barcode_width = 250\<close> and \<open>spacing = 20\<close>. The page size is reportlab's \<open>A4\<close>, a
  pair of floats; the arithmetic on it is done here in the real numbers.
\<close>

definition barcodes_per_row :: "env \<Rightarrow> int" where
  "barcodes_per_row E = max 1 (py_int ((fst (A4 E) - 2 * 72) / (250 + 20)))"

definition barcodes_per_column :: "env \<Rightarrow> int" where
  "barcodes_per_column E = max 1 (py_int ((snd (A4 E) - 2 * 72) / (80 + 20)))"

definition barcodes_per_page :: "env \<Rightarrow> int" where
  "barcodes_per_page E = barcodes_per_row E * barcodes_per_column E"

text \<open>What the canvas receives: \<open>drawImage(path, x, y, width, height)\<close> and \<open>showPage()\<close>.\<close>

datatype canvas_op = DrawImage pystr real real real real | ShowPage

text \<open>
  The loop of \<open>generate_combined_pdf\<close> over \<open>enumerate(data)\<close>; \<open>n\<close> is \<open>len(data)\<close>, \<open>i\<close>
  the number of the first item of the list and \<open>c\<close> what the canvas has received. An
  exception anywhere in the body ends the body (\<open>continue\<close>) with what was done so far.
\<close>

fun combined_loop ::
  "env \<Rightarrow> barcode_class \<Rightarrow> nat \<Rightarrow> nat \<Rightarrow> pystr list \<Rightarrow> canvas_op list \<Rightarrow> fs \<Rightarrow>
   canvas_op list \<times> fs" where
  "combined_loop E barcode_class n i [] c files = (c, files)"
| "combined_loop E barcode_class n i (text # rest) c files =
     (if \<not> accepts E barcode_class text
      then combined_loop E barcode_class n (i + 1) rest c files
      else (case code_save E ImageWriter (str ''temp_barcode_'' @ str_nat i) files of
        Inl e \<Rightarrow> combined_loop E barcode_class n (i + 1) rest c files
      | Inr (temp_path, files1) \<Rightarrow>
          (let page_position = int i mod barcodes_per_page E;
               row = page_position div barcodes_per_row E;
               col = page_position mod barcodes_per_row E;
               x = 72 + col * (250 + 20);
               y = snd (A4 E) - 72 - real_of_int ((row + 1) * (80 + 20))
           in if \<not> can_draw E temp_path
              then combined_loop E barcode_class n (i + 1) rest c files1
              else (let c1 = c @ [DrawImage temp_path (real_of_int x) y 250 80] in
                (case (if temp_path \<in> files1 then os_remove E temp_path files1 else Inr files1) of
                  Inl e \<Rightarrow> combined_loop E barcode_class n (i + 1) rest c1 files1
                | Inr files2 \<Rightarrow>
                    combined_loop E barcode_class n (i + 1) rest
                      (if (int i + 1) mod barcodes_per_page E = 0 \<and> int i < int n - 1
                       then c1 @ [ShowPage] else c1)
                      files2)))))"

text \<open>
  \<open>generate_combined_pdf\<close>. Its value in the source is the boolean; the content of the
  canvas is returned with it so that the layout can be read off. The outer \<open>except\<close>
  turns the \<open>KeyError\<close> of the registry and a failure of \<open>c.save()\<close> into \<open>False\<close>.
\<close>

definition generate_combined_pdf ::
  "env \<Rightarrow> pystr list \<Rightarrow> pystr \<Rightarrow> pystr \<Rightarrow> pystr \<Rightarrow> fs \<Rightarrow> bool \<times> canvas_op list \<times> fs" where
  "generate_combined_pdf E data barcode_type output_dir prefix files =
     (if \<not> HAS_PDF_SUPPORT E then (False, [], files)
      else let pdf_path = os_path_join output_dir (prefix @ str ''combined_barcodes.pdf'') in
        case barcode_types barcode_type of
          None \<Rightarrow> (False, [], files)
        | Some barcode_class \<Rightarrow>
            (case combined_loop E barcode_class (length data) 0 data [] files of
               (c, files1) \<Rightarrow>
                 (case canvas_save E pdf_path files1 of
                    Inl e \<Rightarrow> (False, c, files1)
                  | Inr files2 \<Rightarrow> (True, c, files2))))"

text \<open>
  What a batch run reports: the two counters behind the label
  \<open>"Completed: {successful} successful, {len(failed_items)} failed"\<close> and the closing
  message box.
\<close>

record batch_result =
  successful :: nat
  failed_items :: "failed_item list"
  shown :: message_box

text \<open>The last lines of \<open>on_generate_batch\<close>, under \<open># Show results\<close>.\<close>

definition show_results :: "nat \<Rightarrow> failed_item list \<Rightarrow> batch_result" where
  "show_results n failed =
     \<lparr> successful = n, failed_items = failed,
       shown = (if failed \<noteq> []
                then MessageBox
                       (Successfully_generated n (take 10 failed)
                          (if length failed > 10 then Some (length failed - 10) else None))
                       ''Batch Generation Complete'' ICON_WARNING
                else MessageBox (Successfully_generated_all n) ''Success'' ICON_INFORMATION) \<rparr>"

text \<open>
  \<open>on_generate_batch\<close> from the point where the records \<open>data\<close> have been read from the
  input file. An empty list ends the handler with an error box (\<open>Inl\<close>).
\<close>

definition on_generate_batch ::
  "env \<Rightarrow> pystr list \<Rightarrow> pystr \<Rightarrow> pystr \<Rightarrow> pystr \<Rightarrow> pystr \<Rightarrow> fs \<Rightarrow>
   (message_box + batch_result) \<times> fs" where
  "on_generate_batch E data barcode_type output_format output_dir prefix files =
     (if data = [] then (Inl (MessageBox No_data_found ''Error'' ICON_ERROR), files)
      else if output_format = str ''PDF (Combined)'' \<and> HAS_PDF_SUPPORT E
      then (case generate_combined_pdf E data barcode_type output_dir prefix files of
              (success, c, files1) \<Rightarrow>
                (Inr (show_results (if success then length data else 0) []), files1))
      else (case generate_individual E barcode_type output_format output_dir prefix 0 data 0 [] files of
              (n, failed, files1) \<Rightarrow> (Inr (show_results n failed), files1)))"

section \<open>Settings\<close>

text \<open>
  The settings are a dictionary from strings to strings, floats, integers and booleans.
  The settings file holds either the object that \<open>json.dump\<close> wrote for such a dictionary,
  which \<open>json.load\<close> gives back, or something that cannot be opened or parsed.
\<close>

datatype jvalue = JStr pystr | JInt int | JFloat real | JBool bool

type_synonym settings = "pystr \<rightharpoonup> jvalue"

datatype file_content = JSON_object settings | Unparsable

text \<open>The dictionary that \<open>__init__\<close> assigns before it calls \<open>load_settings\<close>.\<close>

definition default_settings :: "env \<Rightarrow> settings" where
  "default_settings E =
     [str ''default_barcode_type'' \<mapsto> JStr (str ''Code128''),
      str ''default_output_format'' \<mapsto> JStr (str ''PNG''),
      str ''default_output_dir'' \<mapsto> JStr (downloads E),
      str ''barcode_width'' \<mapsto> JFloat 2.0,
      str ''barcode_height'' \<mapsto> JFloat 15.0,
      str ''include_text'' \<mapsto> JBool True,
      str ''text_distance'' \<mapsto> JInt 5,
      str ''font_size'' \<mapsto> JInt 10]"

text \<open>The dictionary that \<open>on_reset_settings\<close> assigns; it has no \<open>text_distance\<close>.\<close>

definition reset_settings :: "env \<Rightarrow> settings" where
  "reset_settings E =
     [str ''default_barcode_type'' \<mapsto> JStr (str ''Code128''),
      str ''default_output_format'' \<mapsto> JStr (str ''PNG''),
      str ''default_output_dir'' \<mapsto> JStr (downloads E),
      str ''barcode_width'' \<mapsto> JFloat 1.0,
      str ''barcode_height'' \<mapsto> JFloat 50.0,
      str ''include_text'' \<mapsto> JBool True,
      str ''font_size'' \<mapsto> JInt 24]"

text \<open>
  \<open>load_settings\<close>: \<open>self.settings.update(saved_settings)\<close> when the file exists and can be
  read; every exception is passed over. \<open>None\<close> is the absent file.
\<close>

definition load_settings :: "settings \<Rightarrow> file_content option \<Rightarrow> settings" where
  "load_settings settings file =
     (case file of
        None \<Rightarrow> settings
      | Some (JSON_object saved_settings) \<Rightarrow> settings ++ saved_settings
      | Some Unparsable \<Rightarrow> settings)"

text \<open>\<open>save_settings\<close>: a failure to write is passed over and leaves the file as it was.\<close>

definition save_settings :: "env \<Rightarrow> settings \<Rightarrow> file_content option \<Rightarrow> file_content option" where
  "save_settings E settings file =
     (if can_write E (str ''barcode_generator_settings.json'') then Some (JSON_object settings)
      else file)"

text \<open>The settings of a fresh start: the defaults of \<open>__init__\<close>, then \<open>load_settings\<close>.\<close>

definition init_settings :: "env \<Rightarrow> file_content option \<Rightarrow> settings" where
  "init_settings E file = load_settings (default_settings E) file"

section \<open>The specification's formulas\<close>

text \<open>
  The file name of a batch item in the words of the specification:
  \<open>sanitize(prefix + zero_padded(i,4) + "_" + truncate(text,20))\<close> for the item with the
  1-based number \<open>i\<close>.
\<close>

definition zero_padded :: "nat \<Rightarrow> nat \<Rightarrow> pystr" where
  "zero_padded i w = replicate (w - length (str_nat i)) (of_char CHR ''0'') @ str_nat i"

definition truncate :: "pystr \<Rightarrow> nat \<Rightarrow> pystr" where
  "truncate text n = take n text"

definition spec_filename :: "env \<Rightarrow> pystr \<Rightarrow> nat \<Rightarrow> pystr \<Rightarrow> pystr" where
  "spec_filename E prefix i text =
     sanitize E (prefix @ zero_padded i 4 @ str ''_'' @ truncate text 20)"

text \<open>
  The layout of the combined document in the words of the specification, for a page of
  the given size: box 250 by 80, spacing 20, margin 72; \<open>spec_position page i\<close> is the
  pair \<open>(x, y)\<close> of the item with the 0-based number \<open>i\<close>.
\<close>

definition items_per_row :: "real \<Rightarrow> int" where
  "items_per_row usable_width = max 1 \<lfloor>usable_width / (250 + 20)\<rfloor>"

definition items_per_column :: "real \<Rightarrow> int" where
  "items_per_column usable_height = max 1 \<lfloor>usable_height / (80 + 20)\<rfloor>"

definition spec_position :: "real \<times> real \<Rightarrow> nat \<Rightarrow> real \<times> real" where
  "spec_position page i =
     (let per_row = items_per_row (fst page - 2 * 72);
          items_per_page = per_row * items_per_column (snd page - 2 * 72);
          page_position = int i mod items_per_page;
          row = page_position div per_row;
          col = page_position mod per_row
      in (72 + real_of_int col * (250 + 20),
          snd page - 72 - (real_of_int row + 1) * (80 + 20)))"

text \<open>
  The items of \<open>enumerate(data)\<close> that reach the canvas in \<open>generate_combined_pdf\<close>: the
  encoder takes the text, the temporary image is written and \<open>drawImage\<close> reads it.
\<close>

definition placed :: "env \<Rightarrow> barcode_class \<Rightarrow> nat \<times> pystr \<Rightarrow> bool" where
  "placed E barcode_class =
     (\<lambda>(i, text). accepts E barcode_class text \<and>
        can_write E (saved_as E ImageWriter (str ''temp_barcode_'' @ str_nat i)) \<and>
        can_draw E (saved_as E ImageWriter (str ''temp_barcode_'' @ str_nat i)))"

text \<open>The image of item \<open>i\<close> at the position the specification gives it.\<close>

definition drawn :: "env \<Rightarrow> nat \<times> pystr \<Rightarrow> canvas_op" where
  "drawn E =
     (\<lambda>(i, text). DrawImage (saved_as E ImageWriter (str ''temp_barcode_'' @ str_nat i))
        (fst (spec_position (A4 E) i)) (snd (spec_position (A4 E) i)) 250 80)"

section \<open>Auxiliary functions\<close>

text \<open>
  The variable \<open>extension\<close> and the writer of the two image branches of
  \<open>generate_barcode\<close>.
\<close>

definition extension :: "pystr \<Rightarrow> pystr" where
  "extension output_format = (if output_format = str ''SVG'' then str ''.svg'' else str ''.png'')"

definition writer_of :: "pystr \<Rightarrow> writer" where
  "writer_of output_format = (if output_format = str ''SVG'' then SVGWriter else ImageWriter)"

text \<open>Reading a decimal numeral back, used to show that \<open>format_04d\<close> is injective.\<close>

fun nat_of_digits :: "nat \<Rightarrow> pystr \<Rightarrow> nat" where
  "nat_of_digits a [] = a"
| "nat_of_digits a (d # ds) = nat_of_digits (10 * a + (d - 48)) ds"

section \<open>Evaluation rules\<close>

lemmas string_defs = str_def sanitize_def rstrip_def strip_def keep_char_def isalnum_def
  isspace_def batch_filename_def format_04d_def os_path_join_def extension_def

lemmas io_defs = code_save_def canvas_save_def os_remove_def encode_to_def logic_encode_to_def

lemmas registry_defs = barcode_types_def logic_barcode_types_def

lemmas plain_defs = plain_env_def plain_accepts_def plain_saved_as_def

section \<open>Sanitizing file names\<close>

lemma rstrip_append_keep:
  "\<not> isspace E c \<Longrightarrow> rstrip E (xs @ c # ys) = xs @ c # rstrip E ys"
  by (cases "\<forall>y\<in>set ys. isspace E y") (auto simp: rstrip_def dropWhile_append)

lemma rstrip_decomp: "\<exists>ws. s = rstrip E s @ ws \<and> list_all (isspace E) ws"
proof -
  have "rev s = takeWhile (isspace E) (rev s) @ dropWhile (isspace E) (rev s)"
    by simp
  then have "s = rev (dropWhile (isspace E) (rev s)) @ rev (takeWhile (isspace E) (rev s))"
    by (metis rev_append rev_rev_ident)
  moreover have "list_all (isspace E) (rev (takeWhile (isspace E) (rev s)))"
    by (simp add: list_all_iff) (meson set_takeWhileD)
  ultimately show ?thesis
    unfolding rstrip_def by blast
qed

lemma rstrip_last: "rstrip E s \<noteq> [] \<Longrightarrow> \<not> isspace E (last (rstrip E s))"
  unfolding rstrip_def by (metis hd_dropWhile last_rev rev_is_Nil_conv)

text \<open>
  Claim C6 as it is stated, that sanitizing removes exactly the characters that are
  neither alphanumeric nor space, dash or underscore and leaves all others in place, fails
  on a text that ends in a blank: the blank passes the filter and \<open>rstrip\<close> removes it.
\<close>

theorem sanitize_trailing_blank_counterexample:
  "filter (keep_char plain_env) (str ''a '') = str ''a '' \<and>
   sanitize plain_env (str ''a '') = str ''a'' \<and>
   sanitize plain_env (str ''a '') \<noteq> filter (keep_char plain_env) (str ''a '')"
  by (simp add: string_defs plain_defs)

text \<open>
  Claim C6, amended: for every input string, sanitizing keeps, in order, exactly the
  characters that are alphanumeric, space, dash or underscore, and then removes the
  whitespace at the end: the kept characters are the result followed by whitespace only,
  and a result that is not empty does not end in whitespace.
\<close>

theorem sanitize_filters_then_strips:
  "\<exists>ws. filter (keep_char E) s = sanitize E s @ ws \<and> list_all (isspace E) ws \<and>
        (sanitize E s \<noteq> [] \<longrightarrow> \<not> isspace E (last (sanitize E s)))"
  unfolding sanitize_def
  using rstrip_decomp [of "filter (keep_char E) s" E] rstrip_last [of E "filter (keep_char E) s"]
  by blast

theorem sanitize_filters_then_strips_witness:
  "sanitize plain_env (str ''a b! '') = str ''a b'' \<and>
   (\<exists>ws. filter (keep_char plain_env) (str ''a b! '') = str ''a b'' @ ws \<and>
         list_all (isspace plain_env) ws \<and>
         (str ''a b'' \<noteq> [] \<longrightarrow> \<not> isspace plain_env (last (str ''a b''))))"
proof -
  have v: "sanitize plain_env (str ''a b! '') = str ''a b''"
    by (simp add: string_defs plain_defs)
  show ?thesis
    using sanitize_filters_then_strips [of plain_env "str ''a b! ''"] unfolding v
    by (simp add: v)
qed

section \<open>Batch file names are injective\<close>

lemma str_nat_digits: "\<forall>c\<in>set (str_nat n). 48 \<le> c \<and> c \<le> 57"
proof (induction n rule: str_nat.induct)
  case (1 n)
  show ?case
  proof (cases "n < 10")
    case True
    then show ?thesis by (subst str_nat.simps) simp
  next
    case False
    with 1 show ?thesis by (subst str_nat.simps) auto
  qed
qed

lemma nat_of_digits_append:
  "nat_of_digits a (xs @ ys) = nat_of_digits (nat_of_digits a xs) ys"
  by (induction xs arbitrary: a) auto

lemma nat_of_digits_str_nat: "nat_of_digits 0 (str_nat n) = n"
proof (induction n rule: str_nat.induct)
  case (1 n)
  show ?case
  proof (cases "n < 10")
    case True
    then show ?thesis by (subst str_nat.simps) simp
  next
    case False
    with 1 show ?thesis by (subst str_nat.simps) (simp add: nat_of_digits_append)
  qed
qed

lemma nat_of_digits_zeros: "nat_of_digits 0 (replicate k 48 @ ds) = nat_of_digits 0 ds"
  by (induction k) auto

lemma format_04d_inj: "format_04d m = format_04d n \<Longrightarrow> m = n"
  by (metis format_04d_def nat_of_digits_zeros nat_of_digits_str_nat)

lemma format_04d_digits: "\<forall>c\<in>set (format_04d n). 48 \<le> c \<and> c \<le> 57"
  using str_nat_digits [of n] by (auto simp: format_04d_def)

lemma digits_takeWhile:
  assumes "\<forall>c\<in>set ds. 48 \<le> c \<and> c \<le> 57"
  shows "takeWhile (\<lambda>c. 48 \<le> c \<and> c \<le> (57::nat)) (ds @ 95 # r) = ds"
  using assms by (induction ds) auto

lemma keep_digit: "48 \<le> c \<Longrightarrow> c \<le> 57 \<Longrightarrow> keep_char E c"
  by (simp add: keep_char_def isalnum_def)

text \<open>
  The index and the underscore after it survive sanitizing unchanged, whatever the prefix
  and the text are.
\<close>

lemma batch_filename_shape:
  "batch_filename E prefix i t =
     filter (keep_char E) prefix @ format_04d (i + 1) @
       95 # rstrip E (filter (keep_char E) (take 20 t))"
proof -
  have d: "filter (keep_char E) (format_04d (i + 1)) = format_04d (i + 1)"
    using format_04d_digits [of "i + 1"] by (auto intro!: filter_True keep_digit)
  have k: "filter (keep_char E) (str ''_'') = [95]"
    by (simp add: keep_char_def str_def)
  have s: "\<not> isspace E 95"
    by (simp add: isspace_def)
  have "filter (keep_char E) (prefix @ format_04d (i + 1) @ str ''_'' @ take 20 t) =
        (filter (keep_char E) prefix @ format_04d (i + 1)) @
          95 # filter (keep_char E) (take 20 t)"
    by (simp only: filter_append d k append_assoc append_Cons append_Nil)
  then have "rstrip E (filter (keep_char E) (prefix @ format_04d (i + 1) @ str ''_'' @ take 20 t)) =
        (filter (keep_char E) prefix @ format_04d (i + 1)) @
          95 # rstrip E (filter (keep_char E) (take 20 t))"
    by (simp only: rstrip_append_keep [OF s])
  then show ?thesis
    unfolding batch_filename_def sanitize_def by (simp only: append_assoc)
qed

text \<open>
  Claim C8: within one individual-output batch run (one prefix), two items with distinct
  indices get distinct sanitized file names, whatever their texts are, also when the
  texts sanitize to the same string.
\<close>

theorem batch_filename_injective:
  "i \<noteq> j \<Longrightarrow> batch_filename E prefix i t1 \<noteq> batch_filename E prefix j t2"
proof
  assume ne: "i \<noteq> j" and eq: "batch_filename E prefix i t1 = batch_filename E prefix j t2"
  let ?r1 = "rstrip E (filter (keep_char E) (take 20 t1))"
  let ?r2 = "rstrip E (filter (keep_char E) (take 20 t2))"
  from eq have "format_04d (i + 1) @ 95 # ?r1 = format_04d (j + 1) @ 95 # ?r2"
    by (simp add: batch_filename_shape)
  then have "takeWhile (\<lambda>c. 48 \<le> c \<and> c \<le> (57::nat)) (format_04d (i + 1) @ 95 # ?r1) =
             takeWhile (\<lambda>c. 48 \<le> c \<and> c \<le> (57::nat)) (format_04d (j + 1) @ 95 # ?r2)"
    by simp
  then have "format_04d (i + 1) = format_04d (j + 1)"
    by (simp only: digits_takeWhile [OF format_04d_digits])
  then have "i + 1 = j + 1"
    by (rule format_04d_inj)
  with ne show False by simp
qed

theorem batch_filename_injective_witness:
  "(0::nat) \<noteq> 1 \<and>
   sanitize plain_env (str ''A?'') = sanitize plain_env (str ''A!'') \<and>
   batch_filename plain_env (str ''x_'') 0 (str ''A?'') = str ''x_0001_A'' \<and>
   batch_filename plain_env (str ''x_'') 1 (str ''A!'') = str ''x_0002_A'' \<and>
   batch_filename plain_env (str ''x_'') 0 (str ''A?'') \<noteq>
     batch_filename plain_env (str ''x_'') 1 (str ''A!'')"
  using batch_filename_injective [of 0 1 plain_env "str ''x_''" "str ''A?''" "str ''A!''"]
  by (simp add: string_defs plain_defs str_nat.simps eval_nat_numeral)

section \<open>The single-item generators\<close>


text \<open>
  With an encoder that rejects the empty text, as \<open>Code128\<close> does, the same call fails
  with the encoder's exception and writes nothing.
\<close>

lemma generate_barcode_empty_text_Code128:
  "generate_barcode plain_env [] (str ''Code128'') (str ''PNG'') (str ''out'') None {} =
     (Inl (BarcodeError Code128 []), {})"
  by (simp add: generate_barcode_def plain_defs string_defs io_defs registry_defs)



text \<open>
  Claim C4 as it is stated fails for \<open>generate_barcode\<close> of try.py: its PDF branch is
  guarded by \<open>HAS_PDF_SUPPORT\<close>, so a PDF request without the document library falls
  through to the PNG branch, which writes an image and returns \<open>True\<close>.
\<close>

theorem pdf_without_support_counterexample:
  "generate_barcode (plain_env\<lparr>HAS_PDF_SUPPORT := False\<rparr>) (str ''A1'') (str ''Code128'')
      (str ''PDF'') (str ''out'') (Some (str ''doc'')) {} = (Inr True, {str ''out/doc.png.png''})"
  by (simp add: generate_barcode_def plain_defs string_defs io_defs registry_defs)

text \<open>
  Claim C4, amended: where PDF output is requested while the document library is
  unavailable, \<open>generate_barcode\<close> of logic/barcode\_generator.py (for a symbology of its
  registry) and \<open>generate_pdf_barcode\<close> of try.py fail with the exception
  \<open>PDF support not available\<close> and leave the file system as it was. \<open>generate_barcode\<close>
  of try.py does not fail on that account: it treats the request as a request for PNG
  and does whatever the same call with the format PNG does. (The window of try.py offers
  the PDF formats only when the library is available.)
\<close>

theorem pdf_without_support:
  assumes "\<not> HAS_PDF_SUPPORT E"
  shows "generate_barcode E text barcode_type (str ''PDF'') output_dir filename files =
           generate_barcode E text barcode_type (str ''PNG'') output_dir filename files \<and>
         generate_pdf_barcode E text barcode_type output_dir name files =
           (Inl PDF_support_not_available, files) \<and>
         (logic_barcode_types barcode_type = Some k \<and> upper E output_format = str ''PDF'' \<longrightarrow>
            logic_generate_barcode E text barcode_type output_format output_dir filename files =
              (Inl PDF_support_not_available, files))"
proof -
  have ne: "str ''PDF'' \<noteq> str ''SVG''" "str ''PNG'' \<noteq> str ''SVG''" "str ''PNG'' \<noteq> str ''PDF''"
    by (simp_all add: str_def)
  show ?thesis
    using assms ne
    by (simp add: generate_barcode_def generate_pdf_barcode_def logic_generate_barcode_def
        split: option.splits)
qed

theorem pdf_without_support_witness:
  "\<not> HAS_PDF_SUPPORT (plain_env\<lparr>HAS_PDF_SUPPORT := False\<rparr>) \<and>
   logic_barcode_types (str ''Code128'') = Some Code128 \<and>
   upper (plain_env\<lparr>HAS_PDF_SUPPORT := False\<rparr>) (str ''pdf'') = str ''PDF'' \<and>
   generate_barcode (plain_env\<lparr>HAS_PDF_SUPPORT := False\<rparr>) (str ''A1'') (str ''Code128'')
      (str ''PDF'') (str ''out'') (Some (str ''doc'')) {} =
     generate_barcode (plain_env\<lparr>HAS_PDF_SUPPORT := False\<rparr>) (str ''A1'') (str ''Code128'')
      (str ''PNG'') (str ''out'') (Some (str ''doc'')) {} \<and>
   generate_barcode (plain_env\<lparr>HAS_PDF_SUPPORT := False\<rparr>) (str ''A1'') (str ''Code128'')
      (str ''PNG'') (str ''out'') (Some (str ''doc'')) {} = (Inr True, {str ''out/doc.png.png''}) \<and>
   generate_pdf_barcode (plain_env\<lparr>HAS_PDF_SUPPORT := False\<rparr>) (str ''A1'') (str ''Code128'')
      (str ''out'') (str ''doc'') {} = (Inl PDF_support_not_available, {}) \<and>
   logic_generate_barcode (plain_env\<lparr>HAS_PDF_SUPPORT := False\<rparr>) (str ''A1'') (str ''Code128'')
      (str ''pdf'') (str ''out'') (Some (str ''doc'')) {} = (Inl PDF_support_not_available, {})"
  using pdf_without_support
    [of "plain_env\<lparr>HAS_PDF_SUPPORT := False\<rparr>" "str ''A1''" "str ''Code128''" "str ''out''"
        "Some (str ''doc'')" "{}" "str ''doc''" Code128 "str ''pdf''"]
  by (simp add: generate_barcode_def upper_def plain_defs string_defs io_defs registry_defs)






section \<open>Batch runs\<close>

lemma generate_individual_counts:
  "generate_individual E barcode_type output_format output_dir prefix i data s f files = (s', f', files') \<Longrightarrow>
   s' + length f' = s + length f + length data"
proof (induction data arbitrary: i s f files)
  case Nil
  then show ?case by simp
next
  case (Cons t rest)
  then show ?case
    by (auto simp: Let_def split: prod.splits sum.splits if_splits)
qed

text \<open>
  A run that writes one file per item counts every item once, and so does a combined run
  whose document was saved.
\<close>

lemma individual_run_counts:
  assumes "\<not> (output_format = str ''PDF (Combined)'' \<and> HAS_PDF_SUPPORT E)"
    and "on_generate_batch E data barcode_type output_format output_dir prefix files = (Inr r, files')"
  shows "successful r + length (failed_items r) = length data"
proof -
  from assms obtain s f where
    run: "generate_individual E barcode_type output_format output_dir prefix 0 data 0 [] files = (s, f, files')"
    and r: "r = show_results s f"
    by (auto simp: on_generate_batch_def split: if_splits prod.splits)
  from generate_individual_counts [OF run] r show ?thesis
    by (simp add: show_results_def)
qed

text \<open>
  Claim C1: every batch run reports \<open>successful + len(failed_items) = len(data)\<close>. The
  combined branch of \<open>on_generate_batch\<close> misses the case that \<open>generate_combined_pdf\<close>
  returns \<open>False\<close>: nothing is counted and nothing is recorded as failed. With one item
  and a directory in which the document cannot be saved, the run reports 0 successful and
  no failed item, and closes with the box of a run without failures.
\<close>

theorem combined_failure_counts_no_item:
  "on_generate_batch
     (plain_env\<lparr>can_write := (\<lambda>p. p \<noteq> str ''/missing/x_combined_barcodes.pdf'')\<rparr>)
     [str ''A1''] (str ''Code128'') (str ''PDF (Combined)'') (str ''/missing'') (str ''x_'') {} =
   (Inr \<lparr>successful = 0, failed_items = [],
          shown = MessageBox (Successfully_generated_all 0) ''Success'' ICON_INFORMATION\<rparr>, {}) \<and>
   0 + length ([] :: failed_item list) \<noteq> length [str ''A1'']"
  by (simp add: on_generate_batch_def generate_combined_pdf_def show_results_def plain_defs
      string_defs io_defs registry_defs str_nat.simps)

lemma spec_filename_eq: "spec_filename E prefix (i + 1) t = batch_filename E prefix i t"
  by (simp add: spec_filename_def batch_filename_def zero_padded_def truncate_def format_04d_def)

lemma str_format_ne:
  "str ''PNG'' \<noteq> str ''PDF (Individual)''" "str ''SVG'' \<noteq> str ''PDF (Individual)''"
  "str ''PNG'' \<noteq> str ''PDF''" "str ''SVG'' \<noteq> str ''PDF''" "str ''PNG'' \<noteq> str ''SVG''"
  "str ''PNG'' \<noteq> str ''PDF (Combined)''" "str ''SVG'' \<noteq> str ''PDF (Combined)''"
  by (simp_all add: str_def)

lemma generate_individual_all_written:
  assumes "barcode_types barcode_type = Some k"
    and "output_format = str ''PNG'' \<or> output_format = str ''SVG''"
    and "\<forall>(j, t) \<in> set (enumerate i data). accepts E k t \<and>
           can_write E (saved_as E (writer_of output_format) (os_path_join output_dir
             (spec_filename E prefix (j + 1) t @ extension output_format)))"
  shows "generate_individual E barcode_type output_format output_dir prefix i data s f files =
     (s + length data, f,
      files \<union> (\<lambda>(j, t). saved_as E (writer_of output_format) (os_path_join output_dir
                 (spec_filename E prefix (j + 1) t @ extension output_format))) ` set (enumerate i data))"
  using assms(3)
proof (induction data arbitrary: i s f files)
  case Nil
  then show ?case by simp
next
  case (Cons t rest)
  from Cons.prems have rest: "\<forall>(j, t) \<in> set (enumerate (i + 1) rest). accepts E k t \<and>
           can_write E (saved_as E (writer_of output_format) (os_path_join output_dir
             (spec_filename E prefix (j + 1) t @ extension output_format)))"
    by simp
  from Cons.prems have here: "accepts E k t"
    "can_write E (saved_as E (writer_of output_format) (os_path_join output_dir
       (spec_filename E prefix (i + 1) t @ extension output_format)))"
    by simp_all
  from assms(2) show ?case
  proof
    assume "output_format = str ''PNG''"
    with here str_format_ne assms(1) show ?thesis
      using Cons.IH [OF rest]
      by (auto simp add: generate_barcode_def encode_to_def code_save_def extension_def
          writer_of_def spec_filename_eq [symmetric])
  next
    assume "output_format = str ''SVG''"
    with here str_format_ne assms(1) show ?thesis
      using Cons.IH [OF rest]
      by (auto simp add: generate_barcode_def encode_to_def code_save_def extension_def
          writer_of_def spec_filename_eq [symmetric])
  qed
qed

text \<open>
  A run for an image format (PNG or SVG) in which the encoder takes every item and every
  file can be written: for the item with the 1-based number \<open>i\<close> the generator hands the
  writer the path of the output directory and the specification's file name with the
  format's extension; the run creates what the writer makes of these paths, counts every
  item as successful and records no failure.
\<close>

lemma individual_run_all_written:
  assumes "data \<noteq> []"
    and "barcode_types barcode_type = Some k"
    and "output_format = str ''PNG'' \<or> output_format = str ''SVG''"
    and "\<forall>(i, t) \<in> set (enumerate 0 data). accepts E k t \<and>
           can_write E (saved_as E (writer_of output_format) (os_path_join output_dir
             (spec_filename E prefix (i + 1) t @ extension output_format)))"
  shows "\<exists>r. on_generate_batch E data barcode_type output_format output_dir prefix files =
           (Inr r,
            files \<union> (\<lambda>(i, t). saved_as E (writer_of output_format) (os_path_join output_dir
                       (spec_filename E prefix (i + 1) t @ extension output_format))) `
                     set (enumerate 0 data)) \<and>
         successful r = length data \<and> failed_items r = []"
  using assms(1,3) str_format_ne
    generate_individual_all_written [OF assms(2,3,4), of 0 "[]" files]
  by (auto simp add: on_generate_batch_def show_results_def)

lemma enumerate_three: "enumerate 0 [a0, a1, a2] = [(0, a0), (1, a1), (2, a2)]"
  by (simp add: eval_nat_numeral)

lemma enumerate_two: "enumerate 0 [a0, a1] = [(0, a0), (1, a1)]"
  by simp

lemma scenario_filenames:
  "batch_filename plain_env (str ''x_'') 0 (str ''A1'') = str ''x_0001_A1''"
  "batch_filename plain_env (str ''x_'') 1 (str ''B2'') = str ''x_0002_B2''"
  "batch_filename plain_env (str ''x_'') 2 (str ''C3'') = str ''x_0003_C3''"
  "batch_filename plain_env (str ''x_'') 0 (str ''a/b:c?'') = str ''x_0001_abc''"
  "batch_filename plain_env (str ''x_'') 1 (str ''0123456789012345678 xyz'') =
     str ''x_0002_0123456789012345678''"
  by (simp_all add: string_defs plain_defs str_nat.simps eval_nat_numeral)

lemma scenario_filenames_Suc:
  "batch_filename plain_env (str ''x_'') (Suc 0) (str ''B2'') = str ''x_0002_B2''"
  "batch_filename plain_env (str ''x_'') (Suc (Suc 0)) (str ''C3'') = str ''x_0003_C3''"
  "batch_filename plain_env (str ''x_'') (Suc 0) (str ''0123456789012345678 xyz'') =
     str ''x_0002_0123456789012345678''"
  using scenario_filenames by (simp_all add: numeral_2_eq_2)

text \<open>
  Claim C2: in an individual-output batch run the file name of the item with the 1-based
  number \<open>i\<close> is the sanitized concatenation of the prefix, \<open>i\<close> zero-padded to four digits,
  an underscore and the first 20 characters of the text, and the run over
  \<open>["A1", "B2", "C3"]\<close> with Code128, PNG and the prefix \<open>x_\<close> produces the files
  \<open>x_0001_A1.png\<close>, \<open>x_0002_B2.png\<close>, \<open>x_0003_C3.png\<close> with three successes and no
  failure. The names are derived as the claim says, and the counts are the claimed ones,
  but the files are not: \<open>generate_barcode\<close> appends the extension to the name and hands
  the result to \<open>code.save\<close>, which appends the extension of its writer itself and returns
  the full name, as \<open>generate_pdf_barcode\<close> and \<open>on_preview\<close> rely on when they pass a
  bare name and go on with the returned one. The files of the scenario are
  \<open>x_0001_A1.png.png\<close>, \<open>x_0002_B2.png.png\<close> and \<open>x_0003_C3.png.png\<close>. The second run
  has texts that are sanitized and cut.
\<close>

theorem batch_scenario_doubles_extension:
  "map (\<lambda>(i, t). batch_filename plain_env (str ''x_'') i t)
     (enumerate 0 [str ''A1'', str ''B2'', str ''C3'']) =
     [str ''x_0001_A1'', str ''x_0002_B2'', str ''x_0003_C3''] \<and>
   on_generate_batch plain_env [str ''A1'', str ''B2'', str ''C3''] (str ''Code128'') (str ''PNG'')
       (str ''out'') (str ''x_'') {} =
     (Inr \<lparr>successful = 3, failed_items = [],
            shown = MessageBox (Successfully_generated_all 3) ''Success'' ICON_INFORMATION\<rparr>,
      {str ''out/x_0001_A1.png.png'', str ''out/x_0002_B2.png.png'',
       str ''out/x_0003_C3.png.png''}) \<and>
   str ''out/x_0001_A1.png'' \<notin>
     {str ''out/x_0001_A1.png.png'', str ''out/x_0002_B2.png.png'', str ''out/x_0003_C3.png.png''} \<and>
   on_generate_batch plain_env [str ''a/b:c?'', str ''0123456789012345678 xyz'']
       (str ''Code128'') (str ''SVG'') (str ''out'') (str ''x_'') {} =
     (Inr \<lparr>successful = 2, failed_items = [],
            shown = MessageBox (Successfully_generated_all 2) ''Success'' ICON_INFORMATION\<rparr>,
      {str ''out/x_0001_abc.svg.svg'', str ''out/x_0002_0123456789012345678.svg.svg''})"
proof -
  have names: "map (\<lambda>(i, t). batch_filename plain_env (str ''x_'') i t)
     (enumerate 0 [str ''A1'', str ''B2'', str ''C3'']) =
     [str ''x_0001_A1'', str ''x_0002_B2'', str ''x_0003_C3'']"
    unfolding enumerate_three by (simp only: list.map prod.case scenario_filenames)
  have reg: "barcode_types (str ''Code128'') = Some Code128"
    by (simp add: registry_defs str_def)
  have ok: "accepts plain_env Code128 (str ''A1'')" "accepts plain_env Code128 (str ''B2'')"
    "accepts plain_env Code128 (str ''C3'')" "accepts plain_env Code128 (str ''a/b:c?'')"
    "accepts plain_env Code128 (str ''0123456789012345678 xyz'')"
    by (simp_all add: plain_defs str_def)
  have w: "can_write plain_env p" for p
    by (simp add: plain_defs)
  have cat: "saved_as plain_env ImageWriter (os_path_join (str ''out'') (str ''x_0001_A1'' @ str ''.png'')) =
      str ''out/x_0001_A1.png.png''"
    "saved_as plain_env ImageWriter (os_path_join (str ''out'') (str ''x_0002_B2'' @ str ''.png'')) =
      str ''out/x_0002_B2.png.png''"
    "saved_as plain_env ImageWriter (os_path_join (str ''out'') (str ''x_0003_C3'' @ str ''.png'')) =
      str ''out/x_0003_C3.png.png''"
    "saved_as plain_env SVGWriter (os_path_join (str ''out'') (str ''x_0001_abc'' @ str ''.svg'')) =
      str ''out/x_0001_abc.svg.svg''"
    "saved_as plain_env SVGWriter
       (os_path_join (str ''out'') (str ''x_0002_0123456789012345678'' @ str ''.svg'')) =
      str ''out/x_0002_0123456789012345678.svg.svg''"
    by (simp_all add: plain_defs os_path_join_def str_def)
  have run1: "generate_individual plain_env (str ''Code128'') (str ''PNG'') (str ''out'') (str ''x_'') 0
      [str ''A1'', str ''B2'', str ''C3''] 0 [] {} =
      (3, [], {str ''out/x_0001_A1.png.png'', str ''out/x_0002_B2.png.png'',
               str ''out/x_0003_C3.png.png''})"
    using ok w
    by (simp add: generate_barcode_def encode_to_def code_save_def reg str_format_ne
        scenario_filenames scenario_filenames_Suc cat) auto
  have run2: "generate_individual plain_env (str ''Code128'') (str ''SVG'') (str ''out'') (str ''x_'') 0
      [str ''a/b:c?'', str ''0123456789012345678 xyz''] 0 [] {} =
      (2, [], {str ''out/x_0001_abc.svg.svg'', str ''out/x_0002_0123456789012345678.svg.svg''})"
    using ok w
    by (simp add: generate_barcode_def encode_to_def code_save_def reg str_format_ne
        scenario_filenames scenario_filenames_Suc cat) auto
  have other: "str ''out/x_0001_A1.png'' \<notin>
     {str ''out/x_0001_A1.png.png'', str ''out/x_0002_B2.png.png'', str ''out/x_0003_C3.png.png''}"
    by (simp add: str_def)
  from names run1 run2 other show ?thesis
    by (simp add: on_generate_batch_def show_results_def str_format_ne)
qed

text \<open>
  \<open>generate_barcode\<close> of logic/barcode\_generator.py returns the path it handed to the
  writer, which is not the path of the file that was created.
\<close>

lemma logic_generate_barcode_returns_other_path:
  "logic_generate_barcode plain_env (str ''A1'') (str ''Code128'') (str ''PNG'') (str ''out'')
     (Some (str ''doc'')) {} = (Inr (str ''out/doc.png''), {str ''out/doc.png.png''})"
  by (simp add: logic_generate_barcode_def upper_def plain_defs string_defs io_defs registry_defs)

text \<open>
  Claim C10: in a combined-document run, when the final save of the document succeeds,
  \<open>generate_combined_pdf\<close> returns \<open>True\<close> whatever happened to the single items, and the
  batch reports every item as successful and no failure. The save is reached when the
  document library is there and the symbology is in the registry.
\<close>

theorem combined_saved_reports_all_items:
  assumes "HAS_PDF_SUPPORT E"
    and "barcode_types barcode_type = Some k"
    and "can_write E (os_path_join output_dir (prefix @ str ''combined_barcodes.pdf''))"
    and "data \<noteq> []"
  shows "fst (generate_combined_pdf E data barcode_type output_dir prefix files) = True \<and>
         (\<exists>r files1. on_generate_batch E data barcode_type (str ''PDF (Combined)'') output_dir prefix files =
                        (Inr r, files1) \<and>
                      successful r = length data \<and> failed_items r = [])"
proof -
  from assms(1-3) have t: "fst (generate_combined_pdf E data barcode_type output_dir prefix files) = True"
    by (simp add: generate_combined_pdf_def canvas_save_def split: prod.splits)
  with assms(1,4) show ?thesis
    by (auto simp add: on_generate_batch_def show_results_def split: prod.splits)
qed

theorem combined_saved_reports_all_items_witness:
  "HAS_PDF_SUPPORT plain_env \<and>
   barcode_types (str ''Code128'') = Some Code128 \<and>
   can_write plain_env (os_path_join (str ''out'') (str ''x_'' @ str ''combined_barcodes.pdf'')) \<and>
   [[8364], [233, 116, 233]] \<noteq> [] \<and>
   generate_combined_pdf plain_env [[8364], [233, 116, 233]]
       (str ''Code128'') (str ''out'') (str ''x_'') {} =
     (True, [], {str ''out/x_combined_barcodes.pdf''}) \<and>
   on_generate_batch plain_env [[8364], [233, 116, 233]]
       (str ''Code128'') (str ''PDF (Combined)'') (str ''out'') (str ''x_'') {} =
     (Inr \<lparr>successful = 2, failed_items = [],
            shown = MessageBox (Successfully_generated_all 2) ''Success'' ICON_INFORMATION\<rparr>,
      {str ''out/x_combined_barcodes.pdf''})"
  using combined_saved_reports_all_items
    [of plain_env "str ''Code128''" Code128 "str ''out''" "str ''x_''"
        "[[8364], [233, 116, 233]]" "{}"]
  by (simp add: on_generate_batch_def generate_combined_pdf_def show_results_def plain_defs
      string_defs io_defs registry_defs)

section \<open>The layout of the combined document\<close>

lemma max_py_int: "max 1 (py_int x) = max 1 \<lfloor>x\<rfloor>"
proof (cases "0 \<le> x")
  case True
  then show ?thesis by (simp add: py_int_def)
next
  case False
  then have "\<lceil>x\<rceil> \<le> 0" and "\<lfloor>x\<rfloor> \<le> 0"
    by (simp_all add: ceiling_le_iff floor_le_iff)
  with False show ?thesis by (simp add: py_int_def)
qed

lemma per_row_eq: "barcodes_per_row E = items_per_row (fst (A4 E) - 2 * 72)"
  by (simp add: barcodes_per_row_def items_per_row_def max_py_int)

lemma per_column_eq: "barcodes_per_column E = items_per_column (snd (A4 E) - 2 * 72)"
  by (simp add: barcodes_per_column_def items_per_column_def max_py_int)

lemma position_eq:
  "(real_of_int (72 + (int i mod barcodes_per_page E) mod barcodes_per_row E * (250 + 20)),
    snd (A4 E) - 72 -
      real_of_int (((int i mod barcodes_per_page E) div barcodes_per_row E + 1) * (80 + 20))) =
   spec_position (A4 E) i"
  by (simp add: spec_position_def Let_def barcodes_per_page_def per_row_eq per_column_eq
      algebra_simps)

text \<open>
  What the loop adds to the canvas, page breaks apart: one image per placed item, in
  input order, at the position of the specification.
\<close>

lemma combined_loop_draws:
  "filter (\<lambda>op. op \<noteq> ShowPage) (fst (combined_loop E k n i data c files)) =
   filter (\<lambda>op. op \<noteq> ShowPage) c @ map (drawn E) (filter (placed E k) (enumerate i data))"
proof (induction data arbitrary: i c files)
  case Nil
  then show ?case by simp
next
  case (Cons t rest)
  have x: "fst (spec_position (A4 E) i) =
      real_of_int (72 + int i mod barcodes_per_page E mod barcodes_per_row E * 270)"
    using position_eq [of i E, symmetric] by simp
  have y: "snd (spec_position (A4 E) i) =
      snd (A4 E) - 72 -
        real_of_int (int i mod barcodes_per_page E div barcodes_per_row E * 100 + 100)"
    using position_eq [of i E, symmetric] by (simp add: algebra_simps)
  show ?case
    by (simp add: Cons.IH code_save_def os_remove_def Let_def x y placed_def drawn_def)
qed

text \<open>
  Claim C7: the assembler computes \<open>items_per_row = max(1, floor(usable_width / (250 + 20)))\<close>,
  \<open>items_per_column = max(1, floor(usable_height / (80 + 20)))\<close> and their product, and
  places the item with the 0-based index \<open>i\<close> at \<open>page_position = i mod items_per_page\<close>,
  \<open>row = page_position div items_per_row\<close>, \<open>col = page_position mod items_per_row\<close>,
  \<open>x = 72 + col * (250 + 20)\<close>, \<open>y = page_top - 72 - (row + 1) * (80 + 20)\<close>, in a box of
  250 by 80: the images on the canvas are those of the items that were encoded and drawn,
  in input order, each at this position.
\<close>

theorem combined_layout:
  assumes "HAS_PDF_SUPPORT E" and "barcode_types barcode_type = Some k"
  shows "barcodes_per_row E = items_per_row (fst (A4 E) - 2 * 72) \<and>
         barcodes_per_column E = items_per_column (snd (A4 E) - 2 * 72) \<and>
         barcodes_per_page E =
           items_per_row (fst (A4 E) - 2 * 72) * items_per_column (snd (A4 E) - 2 * 72) \<and>
         filter (\<lambda>op. op \<noteq> ShowPage)
           (fst (snd (generate_combined_pdf E data barcode_type output_dir prefix files))) =
         map (\<lambda>(i, t). DrawImage (saved_as E ImageWriter (str ''temp_barcode_'' @ str_nat i))
                (fst (spec_position (A4 E) i)) (snd (spec_position (A4 E) i)) 250 80)
           (filter (placed E k) (enumerate 0 data))"
proof -
  have "filter (\<lambda>op. op \<noteq> ShowPage)
           (fst (snd (generate_combined_pdf E data barcode_type output_dir prefix files))) =
        filter (\<lambda>op. op \<noteq> ShowPage) (fst (combined_loop E k (length data) 0 data [] files))"
    using assms by (simp add: generate_combined_pdf_def split: prod.splits sum.splits)
  also have "\<dots> = map (drawn E) (filter (placed E k) (enumerate 0 data))"
    by (simp add: combined_loop_draws)
  finally show ?thesis
    by (simp add: per_row_eq per_column_eq barcodes_per_page_def drawn_def)
qed

lemma A4_positions:
  assumes "A4 E = (595.2755905511812, 841.8897637795277)"
  shows "spec_position (A4 E) 0 = (72, 669.8897637795277)"
    and "spec_position (A4 E) 2 = (72, 469.8897637795277)"
    and "spec_position (A4 E) 3 = (72, 369.8897637795277)"
    and "spec_position (A4 E) 4 = (72, 269.8897637795277)"
    and "spec_position (A4 E) 5 = (72, 169.8897637795277)"
    and "spec_position (A4 E) 6 = (72, 669.8897637795277)"
  by (simp_all add: assms spec_position_def items_per_row_def items_per_column_def Let_def)

lemma temp_names:
  "saved_as plain_env ImageWriter (str ''temp_barcode_'' @ str_nat 0) = str ''temp_barcode_0.png''"
  "saved_as plain_env ImageWriter (str ''temp_barcode_'' @ str_nat 2) = str ''temp_barcode_2.png''"
  "saved_as plain_env ImageWriter (str ''temp_barcode_'' @ str_nat 3) = str ''temp_barcode_3.png''"
  "saved_as plain_env ImageWriter (str ''temp_barcode_'' @ str_nat 4) = str ''temp_barcode_4.png''"
  "saved_as plain_env ImageWriter (str ''temp_barcode_'' @ str_nat 5) = str ''temp_barcode_5.png''"
  "saved_as plain_env ImageWriter (str ''temp_barcode_'' @ str_nat 6) = str ''temp_barcode_6.png''"
  by (simp_all add: plain_defs str_def str_nat.simps)

lemma enumerate_seven:
  "enumerate 0 [a0, a1, a2, a3, a4, a5, a6] =
     [(0, a0), (1, a1), (2, a2), (3, a3), (4, a4), (5, a5), (6, a6)]"
  by (simp add: eval_nat_numeral)

theorem combined_layout_witness:
  "HAS_PDF_SUPPORT plain_env \<and>
   barcode_types (str ''Code128'') = Some Code128 \<and>
   items_per_row (fst (A4 plain_env) - 2 * 72) = 1 \<and>
   items_per_column (snd (A4 plain_env) - 2 * 72) = 6 \<and>
   barcodes_per_page plain_env = 6 \<and>
   filter (\<lambda>op. op \<noteq> ShowPage)
     (fst (snd (generate_combined_pdf plain_env
        [str ''A0'', [8364], str ''A2'', str ''A3'', str ''A4'', str ''A5'', str ''A6'']
        (str ''Code128'') (str ''out'') (str ''x_'') {}))) =
   [DrawImage (str ''temp_barcode_0.png'') 72 669.8897637795277 250 80,
    DrawImage (str ''temp_barcode_2.png'') 72 469.8897637795277 250 80,
    DrawImage (str ''temp_barcode_3.png'') 72 369.8897637795277 250 80,
    DrawImage (str ''temp_barcode_4.png'') 72 269.8897637795277 250 80,
    DrawImage (str ''temp_barcode_5.png'') 72 169.8897637795277 250 80,
    DrawImage (str ''temp_barcode_6.png'') 72 669.8897637795277 250 80]"
proof -
  let ?E = plain_env
  let ?data = "[str ''A0'', [8364], str ''A2'', str ''A3'', str ''A4'', str ''A5'', str ''A6'']"
  have pdf: "HAS_PDF_SUPPORT ?E"
    by (simp add: plain_defs)
  have reg: "barcode_types (str ''Code128'') = Some Code128"
    by (simp add: registry_defs str_def)
  have page: "A4 ?E = (595.2755905511812, 841.8897637795277)"
    by (simp add: plain_defs)
  have per: "items_per_row (fst (A4 ?E) - 2 * 72) = 1"
    "items_per_column (snd (A4 ?E) - 2 * 72) = 6"
    by (simp_all add: page items_per_row_def items_per_column_def)
  have sel: "filter (placed ?E Code128) (enumerate 0 ?data) =
      [(0, str ''A0''), (2, str ''A2''), (3, str ''A3''), (4, str ''A4''), (5, str ''A5''),
       (6, str ''A6'')]"
    unfolding enumerate_seven by (simp add: placed_def plain_defs str_def)
  note layout = combined_layout [OF pdf reg, of ?data "str ''out''" "str ''x_''" "{}"]
  from layout have "barcodes_per_page ?E = 6"
    by (simp only: per)
  moreover from layout have "filter (\<lambda>op. op \<noteq> ShowPage)
     (fst (snd (generate_combined_pdf ?E ?data (str ''Code128'') (str ''out'') (str ''x_'') {}))) =
    map (\<lambda>(i, t). DrawImage (saved_as ?E ImageWriter (str ''temp_barcode_'' @ str_nat i))
                (fst (spec_position (A4 ?E) i)) (snd (spec_position (A4 ?E) i)) 250 80)
      (filter (placed ?E Code128) (enumerate 0 ?data))"
    by blast
  ultimately show ?thesis
    using pdf reg per
    by (simp only: sel A4_positions [OF page] temp_names list.map prod.case fst_conv snd_conv)
qed

section \<open>Settings\<close>

text \<open>
  Claim C9: for every settings dictionary, saving it to the settings file and then
  loading on a fresh start (the built-in defaults, then \<open>load_settings\<close>) gives back every
  field of the saved settings with its value. The file must have been written: a failure
  to write is passed over by \<open>save_settings\<close> and leaves no saved settings to load.
\<close>

theorem settings_round_trip:
  assumes "can_write E (str ''barcode_generator_settings.json'')"
    and "key \<in> dom settings"
  shows "init_settings E (save_settings E settings file) key = settings key"
  using assms
  by (auto simp: init_settings_def save_settings_def load_settings_def map_add_def
      split: option.splits)

theorem settings_round_trip_witness:
  "can_write plain_env (str ''barcode_generator_settings.json'') \<and>
   str ''barcode_width'' \<in> dom (reset_settings plain_env) \<and>
   default_settings plain_env (str ''barcode_width'') = Some (JFloat 2.0) \<and>
   reset_settings plain_env (str ''barcode_width'') = Some (JFloat 1.0) \<and>
   init_settings plain_env (save_settings plain_env (reset_settings plain_env) (Some Unparsable))
     (str ''barcode_width'') = Some (JFloat 1.0)"
  using settings_round_trip
    [of plain_env "str ''barcode_width''" "reset_settings plain_env" "Some Unparsable"]
  by (simp add: plain_defs reset_settings_def default_settings_def str_def)

text \<open>
  The loaded dictionary is the defaults overridden by the saved one; it is the saved
  dictionary itself when that has every key of the defaults, which the dictionary of
  \<open>on_reset_settings\<close> has not.
\<close>

lemma loaded_settings_are_defaults_overridden:
  "can_write E (str ''barcode_generator_settings.json'') \<Longrightarrow>
   init_settings E (save_settings E settings file) = default_settings E ++ settings"
  by (simp add: init_settings_def save_settings_def load_settings_def)

lemma reset_settings_gain_text_distance:
  "reset_settings plain_env (str ''text_distance'') = None \<and>
   init_settings plain_env (save_settings plain_env (reset_settings plain_env) None)
     (str ''text_distance'') = Some (JInt 5)"
  by (simp add: init_settings_def save_settings_def load_settings_def plain_defs
      reset_settings_def default_settings_def str_def map_add_def)

end
